theory Spec2Isabelle
  imports Complex_Main "HOL-Library.Sublist"
begin

section \<open>JavaScript numbers and values\<close>

text \<open>
  A JavaScript number is \<open>NaN\<close>, an infinity or a finite value. Finite values are taken
  with their exact value; the comparisons \<open><=\<close> and \<open>>=\<close> of the language are false as
  soon as one side is \<open>NaN\<close>.
\<close>

datatype number = NaN | NegInf | Fin real | PosInf

fun number_le :: "number \<Rightarrow> number \<Rightarrow> bool" where
  "number_le NaN y = False"
| "number_le x NaN = False"
| "number_le NegInf y = True"
| "number_le x PosInf = True"
| "number_le (Fin a) (Fin b) = (a \<le> b)"
| "number_le PosInf y = False"
| "number_le x NegInf = False"

definition number_ge :: "number \<Rightarrow> number \<Rightarrow> bool" where
  "number_ge x y = number_le y x"

text \<open>\<open>number_lt x y\<close> is the language's \<open>x < y\<close>.\<close>

definition number_lt :: "number \<Rightarrow> number \<Rightarrow> bool" where
  "number_lt x y = (number_le x y \<and> \<not> number_le y x)"

definition isNaN :: "number \<Rightarrow> bool" where
  "isNaN x = (x = NaN)"

datatype jsvalue = JUndefined | JNull | JBool bool | JNumber number | JString string

text \<open>
  \<open>parseFloat\<close> converts its argument to a string and reads the longest numeric prefix.
  Reading the prefix of a non-empty string is the platform's business and is a parameter
  here (\<open>numericPrefix\<close>, \<open>NaN\<close> where the string has no such prefix). What does not
  depend on it is written out: a number survives the round trip through its string, the
  empty string and the strings \<open>undefined\<close>, \<open>null\<close>, \<open>true\<close> and \<open>false\<close> have
  no numeric prefix.
\<close>

definition parseFloat :: "(string \<Rightarrow> number) \<Rightarrow> jsvalue \<Rightarrow> number" where
  "parseFloat numericPrefix v =
     (case v of
        JNumber n \<Rightarrow> n
      | JString s \<Rightarrow> (if s = [] then NaN else numericPrefix s)
      | JUndefined \<Rightarrow> NaN
      | JNull \<Rightarrow> NaN
      | JBool b \<Rightarrow> NaN)"

text \<open>
  An instance of the parameter for concrete runs: it reads the leading decimal digits of
  a string, as the platform does for a string of digits such as \<open>500\<close>.
\<close>

definition digitValue :: "char \<Rightarrow> nat option" where
  "digitValue c = map_of (zip ''0123456789'' [0, 1, 2, 3, 4, 5, 6, 7, 8, 9]) c"

fun leadingDigits :: "string \<Rightarrow> nat option \<Rightarrow> nat option" where
  "leadingDigits [] acc = acc"
| "leadingDigits (c # cs) acc =
     (case digitValue c of
        None \<Rightarrow> acc
      | Some d \<Rightarrow> leadingDigits cs (Some (10 * (case acc of None \<Rightarrow> 0 | Some a \<Rightarrow> a) + d)))"

definition digitsPrefix :: "string \<Rightarrow> number" where
  "digitsPrefix s = (case leadingDigits s None of None \<Rightarrow> NaN | Some n \<Rightarrow> Fin (of_nat n))"

fun startsWith :: "string \<Rightarrow> string \<Rightarrow> bool" where
  "startsWith s [] = True"
| "startsWith [] (p # ps) = False"
| "startsWith (c # cs) (p # ps) = (c = p \<and> startsWith cs ps)"

fun includes_str :: "string \<Rightarrow> string \<Rightarrow> bool" where
  "includes_str [] p = (p = [])"
| "includes_str (c # cs) p = (startsWith (c # cs) p \<or> includes_str cs p)"

text \<open>
  \<open>toLowerCase\<close> is the platform's as well and is a parameter of the search
  (\<open>lower\<close> below). An instance for concrete runs: it lower-cases the ASCII letters and
  keeps every other character, as the platform does on ASCII strings.
\<close>

definition asciiLowerChar :: "char \<Rightarrow> char" where
  "asciiLowerChar c =
     (case map_of (zip ''ABCDEFGHIJKLMNOPQRSTUVWXYZ'' ''abcdefghijklmnopqrstuvwxyz'') c of
        None \<Rightarrow> c
      | Some l \<Rightarrow> l)"

definition asciiLowerCase :: "string \<Rightarrow> string" where
  "asciiLowerCase s = map asciiLowerChar s"

section \<open>The meal list (meals.tsx)\<close>

subsection \<open>Records and filters\<close>

datatype MealId = NumberId int | StringId string

text \<open>
  A meal has the fields the component reads by name, and further own properties
  (\<open>calories\<close>, \<open>fat\<close>, \<open>protein\<close>, \<open>carbohydrates\<close>, ...) that the filter reaches
  through \<open>filter.type in meal\<close> and \<open>meal[filter.type]\<close>.
\<close>

record Meal =
  id_meal :: MealId
  name :: string
  description :: string
  favorite :: bool
  properties :: "string \<Rightarrow> jsvalue option"

definition property :: "Meal \<Rightarrow> string \<Rightarrow> jsvalue option" where
  "property meal key =
     (if key = ''id'' then
        Some (case id_meal meal of
                NumberId n \<Rightarrow> JNumber (Fin (of_int n))
              | StringId s \<Rightarrow> JString s)
      else if key = ''name'' then Some (JString (name meal))
      else if key = ''description'' then Some (JString (description meal))
      else if key = ''favorite'' then Some (JBool (favorite meal))
      else properties meal key)"

record Filter =
  type_filter :: string
  greaterThan :: string
  lessThan :: string

text \<open>The callback of \<open>filters.every\<close>, for one filter entry.\<close>

definition passesFilter :: "(string \<Rightarrow> number) \<Rightarrow> Meal \<Rightarrow> Filter \<Rightarrow> bool" where
  "passesFilter numericPrefix meal f =
     (let greaterThanValue = parseFloat numericPrefix (JString (greaterThan f));
          lessThanValue = parseFloat numericPrefix (JString (lessThan f))
      in case property meal (type_filter f) of
           None \<Rightarrow> True
         | Some raw \<Rightarrow>
             (let mealValue = parseFloat numericPrefix raw
              in if \<not> isNaN greaterThanValue \<and> number_le mealValue greaterThanValue then False
                 else if \<not> isNaN lessThanValue \<and> number_ge mealValue lessThanValue then False
                 else True))"

definition passesFilters :: "(string \<Rightarrow> number) \<Rightarrow> Filter list \<Rightarrow> Meal \<Rightarrow> bool" where
  "passesFilters numericPrefix filters meal = list_all (passesFilter numericPrefix meal) filters"

definition passesSearch :: "(string \<Rightarrow> string) \<Rightarrow> string \<Rightarrow> Meal \<Rightarrow> bool" where
  "passesSearch lower searchQuery meal =
     (searchQuery = [] \<or>
      includes_str (lower (name meal)) (lower searchQuery) \<or>
      includes_str (lower (description meal)) (lower searchQuery))"

text \<open>\<open>meals.filter(...)\<close> of the filter effect: the visible subset.\<close>

definition filtered ::
  "(string \<Rightarrow> number) \<Rightarrow> (string \<Rightarrow> string) \<Rightarrow> Filter list \<Rightarrow> string \<Rightarrow> Meal list \<Rightarrow> Meal list" where
  "filtered numericPrefix lower filters searchQuery meals =
     filter (\<lambda>meal. passesFilters numericPrefix filters meal \<and> passesSearch lower searchQuery meal)
       meals"

subsection \<open>Component state\<close>

text \<open>
  The \<open>useState\<close> values of \<open>MyMeals\<close> that the modelled callbacks read or write.
  \<open>favoriteLoading\<close> is an object, so it is keyed by property names (strings).

  A callback is a closure of the render that created it: the state values it reads are
  the constants of that render (the argument \<open>snap\<close> of the definitions below), and stay
  what they were when the callback runs later. A setter does not change them; it changes
  the state the next render will see (the argument \<open>cur\<close>, returned updated). A setter
  called with a function (\<open>setX(prev => ...)\<close>) reads \<open>cur\<close>, one called with a value
  overwrites it. A call made by the latest render, with nothing in between, has
  \<open>snap = cur\<close>.
\<close>

record State =
  meals :: "Meal list"
  filteredMeals :: "Meal list"
  filteredMealsReady :: bool
  searchQuery :: string
  filters :: "Filter list"
  loading :: bool
  refreshing :: bool
  error :: "string option"
  retryCount :: nat
  dietaryRestrictionFilter :: string
  aiFilter :: string
  filtersLoaded :: bool
  cuisineFilter :: string
  favoriteLoading :: "string \<Rightarrow> bool option"
  currentPage :: nat
  hasMoreMeals :: bool
  loadingMore :: bool

definition MEALS_PER_PAGE :: nat where
  "MEALS_PER_PAGE = 20"

definition defaultFilters :: "Filter list" where
  "defaultFilters =
     [\<lparr>type_filter = ''calories'', greaterThan = [], lessThan = []\<rparr>,
      \<lparr>type_filter = ''fat'', greaterThan = [], lessThan = []\<rparr>,
      \<lparr>type_filter = ''protein'', greaterThan = [], lessThan = []\<rparr>,
      \<lparr>type_filter = ''carbohydrates'', greaterThan = [], lessThan = []\<rparr>]"

text \<open>The initial values given to \<open>useState\<close>.\<close>

definition initialState :: State where
  "initialState =
     \<lparr>meals = [], filteredMeals = [], filteredMealsReady = False, searchQuery = [],
      filters = defaultFilters, loading = True, refreshing = False, error = None,
      retryCount = 0, dietaryRestrictionFilter = [], aiFilter = [], filtersLoaded = False,
      cuisineFilter = [], favoriteLoading = (\<lambda>key. None), currentPage = 0,
      hasMoreMeals = True, loadingMore = False\<rparr>"

text \<open>What a callback leaves behind besides state: requests, timers and alerts, in order.\<close>

datatype Callback = LoadMoreMeals | RetryFetch bool bool

datatype Effect =
    CacheRead
  | RemoteQuery nat nat
  | RemoteUpdate MealId bool
  | SetTimeout nat Callback
  | Alert string string

subsection \<open>toggleFavorite\<close>

fun digitsOf :: "nat \<Rightarrow> string" where
  "digitsOf n =
     (if n < 10 then [''0123456789'' ! n]
      else digitsOf (n div 10) @ [''0123456789'' ! (n mod 10)])"

declare digitsOf.simps [simp del]

text \<open>The property name under which an id indexes \<open>favoriteLoading\<close>.\<close>

definition toPropertyKey :: "MealId \<Rightarrow> string" where
  "toPropertyKey mealId =
     (case mealId of
        NumberId n \<Rightarrow> (if n < 0 then CHR ''-'' # digitsOf (nat (- n)) else digitsOf (nat n))
      | StringId s \<Rightarrow> s)"

definition isMacroId :: "MealId \<Rightarrow> bool" where
  "isMacroId mealId =
     (case mealId of NumberId n \<Rightarrow> False | StringId s \<Rightarrow> startsWith s ''macro_'')"

definition setFavorite :: "MealId \<Rightarrow> bool \<Rightarrow> Meal list \<Rightarrow> Meal list" where
  "setFavorite mealId status ms =
     map (\<lambda>meal. if id_meal meal = mealId then meal\<lparr>favorite := status\<rparr> else meal) ms"

text \<open>
  \<open>updateError\<close> is the \<open>error\<close> field of the result of the remote update: \<open>None\<close> when
  the update went through, the error's message otherwise (empty when it has none). The
  client resolves with this field set when an update fails; that is the failure the
  function tests for.
\<close>

definition toggleFavorite ::
  "State \<Rightarrow> MealId \<Rightarrow> string option \<Rightarrow> State \<Rightarrow> State \<times> Effect list" where
  "toggleFavorite snap mealId updateError cur =
     (if favoriteLoading snap (toPropertyKey mealId) = Some True then (cur, [])
      else if isMacroId mealId then (cur, [])
      else
        (let key = toPropertyKey mealId;
             c1 = cur\<lparr>favoriteLoading := (favoriteLoading cur)(key \<mapsto> True), error := None\<rparr>
         in case find (\<lambda>meal. id_meal meal = mealId) (meals snap) of
              None \<Rightarrow>
                (c1\<lparr>error := Some ''Meal not found'',
                    favoriteLoading := (favoriteLoading c1)(key \<mapsto> False)\<rparr>,
                 [Alert ''Error'' ''Meal not found''])
            | Some currentMeal \<Rightarrow>
                (let newFavoriteStatus = (\<not> favorite currentMeal);
                     updatedMeals = setFavorite mealId newFavoriteStatus (meals snap);
                     c2 = c1\<lparr>meals := updatedMeals\<rparr>
                 in case updateError of
                      None \<Rightarrow>
                        (c2\<lparr>favoriteLoading := (favoriteLoading c2)(key \<mapsto> False)\<rparr>,
                         [RemoteUpdate mealId newFavoriteStatus])
                    | Some message \<Rightarrow>
                        (let revertedMeals = setFavorite mealId (favorite currentMeal) (meals snap);
                             errorMessage =
                               (if message = [] then ''Failed to update favorite status''
                                else message)
                         in (c2\<lparr>meals := revertedMeals, error := Some errorMessage,
                                favoriteLoading := (favoriteLoading c2)(key \<mapsto> False)\<rparr>,
                             [RemoteUpdate mealId newFavoriteStatus,
                              Alert ''Error'' errorMessage])))))"

subsection \<open>fetchMyMeals\<close>

datatype QueryResult = QueryError string | QueryData "Meal list"

text \<open>
  What the awaited collaborators answer during one run of \<open>fetchMyMeals\<close>:
  \<open>getCurrentUserId\<close> (\<open>None\<close> for \<open>null\<close>), \<open>cachedDataService.getUserMeals\<close>
  (\<open>None\<close> when it throws) and the paginated query (its error's message, or its rows).
\<close>

record FetchEnv =
  userId :: "string option"
  cacheResult :: "Meal list option"
  queryResult :: QueryResult

text \<open>
  The body of the \<open>try\<close> up to \<open>newMeals\<close>: \<open>Inl\<close> carries the message of the
  error thrown, \<open>Inr\<close> the batch. The source tests \<open>!useCache || newMeals.length === 0\<close>
  and has the query in the first branch; here the cached batch comes first.
\<close>

definition fetchNewMeals ::
  "State \<Rightarrow> bool \<Rightarrow> FetchEnv \<Rightarrow> (string + Meal list) \<times> Effect list" where
  "fetchNewMeals snap loadMore env =
     (case userId env of
        None \<Rightarrow> (Inl ''Authentication required. Please log in again.'', [])
      | Some uid \<Rightarrow>
          (let tryCache = (\<not> loadMore \<and> dietaryRestrictionFilter snap = [] \<and>
                           aiFilter snap = [] \<and> cuisineFilter snap = []);
               pageToLoad = (if loadMore then currentPage snap + 1 else 0);
               cacheEffects = (if tryCache then [CacheRead] else []);
               useCache = (tryCache \<and> cacheResult env \<noteq> None);
               newMeals = (if tryCache then (case cacheResult env of None \<Rightarrow> [] | Some ms \<Rightarrow> ms)
                           else [])
           in if useCache \<and> newMeals \<noteq> [] then (Inr newMeals, cacheEffects)
              else
                (let offset = pageToLoad * MEALS_PER_PAGE;
                     effects = cacheEffects @ [RemoteQuery offset (offset + MEALS_PER_PAGE - 1)]
                 in case queryResult env of
                      QueryError message \<Rightarrow>
                        (Inl (if message = [] then ''Failed to fetch meals'' else message), effects)
                    | QueryData rows \<Rightarrow> (Inr rows, effects))))"

text \<open>The synchronous start of \<open>fetchMyMeals\<close>, up to its first \<open>await\<close>.\<close>

definition fetchMyMeals_begin :: "State \<Rightarrow> bool \<Rightarrow> bool \<Rightarrow> State \<Rightarrow> State" where
  "fetchMyMeals_begin snap isRefresh loadMore cur =
     (let c1 = (if isRefresh
                then cur\<lparr>refreshing := True, error := None, currentPage := 0, hasMoreMeals := True\<rparr>
                else if loadMore then cur\<lparr>loadingMore := True\<rparr>
                else cur\<lparr>loading := True, error := None\<rparr>)
      in if loadMore then c1 else c1\<lparr>filteredMealsReady := False\<rparr>)"

text \<open>
  The rest of \<open>fetchMyMeals\<close>. The timer of the \<open>catch\<close> block runs
  \<open>setRetryCount(prev => prev + 1); fetchMyMeals(isRefresh, loadMore)\<close>, where
  \<open>fetchMyMeals\<close> is the constant of the render that made this closure: the callback
  \<open>RetryFetch\<close> belongs to the same \<open>snap\<close>.
\<close>

definition fetchMyMeals_end ::
  "State \<Rightarrow> bool \<Rightarrow> bool \<Rightarrow> FetchEnv \<Rightarrow> State \<Rightarrow> State \<times> Effect list" where
  "fetchMyMeals_end snap isRefresh loadMore env cur =
     (let pageToLoad = (if loadMore then currentPage snap + 1 else 0);
          finallyBlock = (\<lambda>c. c\<lparr>loading := False, refreshing := False, loadingMore := False\<rparr>)
      in case fetchNewMeals snap loadMore env of
           (Inr newMeals, effects) \<Rightarrow>
             (finallyBlock
                (cur\<lparr>meals := (if loadMore then meals cur @ newMeals else newMeals),
                     currentPage := (if loadMore then pageToLoad else 0),
                     hasMoreMeals := (length newMeals = MEALS_PER_PAGE),
                     retryCount := 0\<rparr>),
              effects)
         | (Inl message, effects) \<Rightarrow>
             (finallyBlock (cur\<lparr>error := Some message\<rparr>),
              effects @
                (if retryCount snap < 3 \<and> \<not> includes_str message ''Authentication''
                 then [SetTimeout (2 ^ retryCount snap * 1000) (RetryFetch isRefresh loadMore)]
                 else [])))"

definition fetchMyMeals ::
  "State \<Rightarrow> bool \<Rightarrow> bool \<Rightarrow> FetchEnv \<Rightarrow> State \<Rightarrow> State \<times> Effect list" where
  "fetchMyMeals snap isRefresh loadMore env cur =
     (if filtersLoaded snap
      then fetchMyMeals_end snap isRefresh loadMore env
             (fetchMyMeals_begin snap isRefresh loadMore cur)
      else (cur, []))"

text \<open>The delay of the retry timer a run has set, if it has set one.\<close>

fun retryDelay :: "Effect list \<Rightarrow> nat option" where
  "retryDelay [] = None"
| "retryDelay (SetTimeout delay (RetryFetch isRefresh loadMore) # es) = Some delay"
| "retryDelay (e # es) = retryDelay es"

text \<open>
  A fetch followed by the retries its timers start, one \<open>FetchEnv\<close> per attempt, as long
  as attempts are left and a retry was scheduled. Returns the last state and the delays
  of the retry timers that were set, in order.
\<close>

fun fetchWithRetries ::
  "State \<Rightarrow> bool \<Rightarrow> bool \<Rightarrow> FetchEnv list \<Rightarrow> State \<Rightarrow> State \<times> nat list" where
  "fetchWithRetries snap isRefresh loadMore [] cur = (cur, [])"
| "fetchWithRetries snap isRefresh loadMore (env # envs) cur =
     (case fetchMyMeals snap isRefresh loadMore env cur of
        (c, effects) \<Rightarrow>
          (case retryDelay effects of
             None \<Rightarrow> (c, [])
           | Some delay \<Rightarrow>
               (case fetchWithRetries snap isRefresh loadMore envs
                       (c\<lparr>retryCount := retryCount c + 1\<rparr>) of
                  (c', delays) \<Rightarrow> (c', delay # delays))))"

subsection \<open>loadMoreMeals and the filter effect\<close>

definition loadMoreMeals :: "State \<Rightarrow> FetchEnv \<Rightarrow> State \<Rightarrow> State \<times> Effect list" where
  "loadMoreMeals snap env cur =
     (if \<not> loadingMore snap \<and> hasMoreMeals snap \<and> filteredMealsReady snap
      then fetchMyMeals snap False True env cur
      else (cur, []))"

text \<open>
  The start of a fetch and of \<open>loadMoreMeals\<close>, up to the first \<open>await\<close>: the state
  then, and the fetch (\<open>isRefresh\<close>, \<open>loadMore\<close>, page) that is now in flight, if one
  was started.
\<close>

definition fetchMyMeals_start ::
  "State \<Rightarrow> bool \<Rightarrow> bool \<Rightarrow> State \<Rightarrow> State \<times> (bool \<times> bool \<times> nat) list" where
  "fetchMyMeals_start snap isRefresh loadMore cur =
     (if filtersLoaded snap
      then (fetchMyMeals_begin snap isRefresh loadMore cur,
            [(isRefresh, loadMore, if loadMore then currentPage snap + 1 else 0)])
      else (cur, []))"

definition loadMoreMeals_begin :: "State \<Rightarrow> State \<Rightarrow> State \<times> (bool \<times> bool \<times> nat) list" where
  "loadMoreMeals_begin snap cur =
     (if \<not> loadingMore snap \<and> hasMoreMeals snap \<and> filteredMealsReady snap
      then fetchMyMeals_start snap False True cur
      else (cur, []))"

text \<open>
  The effect that recomputes the visible subset. Its timer calls the \<open>loadMoreMeals\<close> of
  the render the effect belongs to. \<open>filteredMealsReady\<close> is set when
  \<open>!loading || meals.length > 0\<close>, that is, unless the list is loading and empty.
\<close>

definition filterEffect ::
  "(string \<Rightarrow> number) \<Rightarrow> (string \<Rightarrow> string) \<Rightarrow> State \<Rightarrow> State \<Rightarrow> State \<times> Effect list" where
  "filterEffect numericPrefix lower snap cur =
     (let visible = filtered numericPrefix lower (filters snap) (searchQuery snap) (meals snap);
          c1 = cur\<lparr>filteredMeals := visible\<rparr>;
          c2 = (if loading snap \<and> meals snap = [] then c1 else c1\<lparr>filteredMealsReady := True\<rparr>)
      in (c2,
          if length visible < 10 \<and> hasMoreMeals snap \<and> \<not> loadingMore snap \<and> meals snap \<noteq> []
          then [SetTimeout 100 LoadMoreMeals] else []))"

text \<open>
  One pass of the effect and, when it has set its timer, the start of the call the timer
  makes: the fetches that call puts in flight are the backfill of the pass.
\<close>

definition backfill ::
  "(string \<Rightarrow> number) \<Rightarrow> (string \<Rightarrow> string) \<Rightarrow> State \<Rightarrow> State \<Rightarrow>
   State \<times> (bool \<times> bool \<times> nat) list" where
  "backfill numericPrefix lower snap cur =
     (case filterEffect numericPrefix lower snap cur of
        (c, timers) \<Rightarrow> (if timers = [] then (c, []) else loadMoreMeals_begin snap c))"

section \<open>The meal-plan calendar (calendar.tsx)\<close>

subsection \<open>Nutrition totals\<close>

text \<open>
  The calendar reads the nutrition fields of a meal with their declared type, number;
  \<open>None\<close> is a field that is missing (\<open>undefined\<close> or \<open>null\<close>).
\<close>

record CalendarMeal =
  calories :: "number option"
  protein :: "number option"
  carbohydrates :: "number option"
  fat :: "number option"

text \<open>\<open>x || 0\<close> on such a field: the falsy numbers are \<open>0\<close> and \<open>NaN\<close>.\<close>

definition orZero :: "number option \<Rightarrow> number" where
  "orZero x = (case x of None \<Rightarrow> Fin 0 | Some n \<Rightarrow> (if isNaN n then Fin 0 else n))"

record Totals =
  calories_total :: number
  protein_total :: number
  carbs :: number
  fat_total :: number

text \<open>
  The addition of the language rounds its result to a double and overflows to an
  infinity; it is the platform's and is a parameter here (\<open>add\<close>), so that nothing
  below rests on a law of exact arithmetic.
\<close>

definition calculateNutritionTotals ::
  "(number \<Rightarrow> number \<Rightarrow> number) \<Rightarrow> CalendarMeal list \<Rightarrow> Totals" where
  "calculateNutritionTotals add mealsForDay =
     foldl
       (\<lambda>totals meal.
          \<lparr>calories_total = add (calories_total totals) (orZero (calories meal)),
           protein_total = add (protein_total totals) (orZero (protein meal)),
           carbs = add (carbs totals) (orZero (carbohydrates meal)),
           fat_total = add (fat_total totals) (orZero (fat meal))\<rparr>)
       \<lparr>calories_total = Fin 0, protein_total = Fin 0, carbs = Fin 0, fat_total = Fin 0\<rparr>
       mealsForDay"

subsection \<open>Loading a date and a week\<close>

text \<open>
  What the collaborators answer during one attempt of \<open>fetchMealsForDate\<close>:
  \<open>getCurrentUserId\<close> (\<open>None\<close> for \<open>null\<close>; this one catches its own errors), the
  cache (\<open>None\<close> when it throws), and the two queries joined by \<open>Promise.all\<close>: either
  the join rejects (or anything else throws inside the \<open>try\<close>), or it resolves with, for
  each query, its error's message or its rows. The rows stand for the meals the
  attempt builds from them, one meal per row.
\<close>

datatype RemoteOutcome =
    Rejected
  | Resolved "string + CalendarMeal list" "string + CalendarMeal list"

record Attempt =
  userId_attempt :: "string option"
  cachedMeals :: "CalendarMeal list option"
  remote :: RemoteOutcome

text \<open>\<open>attempts k\<close> is what the attempt with \<open>retryCount = k\<close> meets (\<open>retry\<close> below).\<close>

function fetchMealsForDate :: "(nat \<Rightarrow> Attempt) \<Rightarrow> nat \<Rightarrow> CalendarMeal list" where
  "fetchMealsForDate attempts retry =
     (case userId_attempt (attempts retry) of
        None \<Rightarrow> []
      | Some uid \<Rightarrow>
          (case cachedMeals (attempts retry) of
             Some (m # ms) \<Rightarrow> m # ms
           | _ \<Rightarrow>
               (case remote (attempts retry) of
                  Rejected \<Rightarrow>
                    (if retry < 2 then fetchMealsForDate attempts (retry + 1) else [])
                | Resolved mealPlanData macroMealsData \<Rightarrow>
                    (case mealPlanData of
                       Inl message \<Rightarrow>
                         (if retry < 2 \<and>
                             (includes_str message ''network'' \<or> includes_str message ''timeout'')
                          then fetchMealsForDate attempts (retry + 1)
                          else [])
                     | Inr transformedMeals \<Rightarrow>
                         transformedMeals @
                           (case macroMealsData of
                              Inl message \<Rightarrow> []
                            | Inr transformedMacroMeals \<Rightarrow> transformedMacroMeals)))))"
  by pat_completeness auto
termination
  by (relation "measure (\<lambda>(attempts, retry). 3 - retry)") auto

declare fetchMealsForDate.simps [simp del]

text \<open>
  Whether an attempt fails in a way \<open>fetchMealsForDate\<close> retries while \<open>retryCount < 2\<close>
  (the join rejects, or the meal-plan query reports an error whose message has
  \<open>network\<close> or \<open>timeout\<close> in it), and what an attempt delivers when it does not fail
  (the cached records, or the rows of both queries).
\<close>

definition retried :: "Attempt \<Rightarrow> bool" where
  "retried a =
     (case userId_attempt a of
        None \<Rightarrow> False
      | Some uid \<Rightarrow>
          (case cachedMeals a of
             Some (m # ms) \<Rightarrow> False
           | _ \<Rightarrow>
               (case remote a of
                  Rejected \<Rightarrow> True
                | Resolved mealPlanData macroMealsData \<Rightarrow>
                    (case mealPlanData of
                       Inl message \<Rightarrow>
                         includes_str message ''network'' \<or> includes_str message ''timeout''
                     | Inr transformedMeals \<Rightarrow> False))))"

definition delivered :: "Attempt \<Rightarrow> CalendarMeal list option" where
  "delivered a =
     (case userId_attempt a of
        None \<Rightarrow> None
      | Some uid \<Rightarrow>
          (case cachedMeals a of
             Some (m # ms) \<Rightarrow> Some (m # ms)
           | _ \<Rightarrow>
               (case remote a of
                  Rejected \<Rightarrow> None
                | Resolved mealPlanData macroMealsData \<Rightarrow>
                    (case mealPlanData of
                       Inl message \<Rightarrow> None
                     | Inr transformedMeals \<Rightarrow>
                         Some (transformedMeals @
                                 (case macroMealsData of
                                    Inl message \<Rightarrow> []
                                  | Inr transformedMacroMeals \<Rightarrow> transformedMacroMeals))))))"

type_synonym MealsByDate = "string \<Rightarrow> CalendarMeal list option"

type_synonym Entries = "(string \<times> CalendarMeal list) list"

text \<open>\<open>{...prevMeals, ...newMeals}\<close>: the entries are written in order, a later one wins.\<close>

definition mergeEntries :: "MealsByDate \<Rightarrow> Entries \<Rightarrow> MealsByDate" where
  "mergeEntries prevMeals newMeals = foldl (\<lambda>acc (date, ms). acc(date \<mapsto> ms)) prevMeals newMeals"

definition hasData :: "Entries \<Rightarrow> string \<Rightarrow> bool" where
  "hasData newMeals date =
     (case mergeEntries Map.empty newMeals date of Some (m # ms) \<Rightarrow> True | _ \<Rightarrow> False)"

definition cachedEntries :: "(string \<Rightarrow> CalendarMeal list option) \<Rightarrow> string list \<Rightarrow> Entries" where
  "cachedEntries weekCache dates =
     concat (map (\<lambda>date. case weekCache date of
                            None \<Rightarrow> []
                          | Some mealsForDate \<Rightarrow> [(date, mealsForDate)]) dates)"

definition fetchedEntries :: "(string \<Rightarrow> nat \<Rightarrow> Attempt) \<Rightarrow> string list \<Rightarrow> Entries" where
  "fetchedEntries attempts dates = map (\<lambda>date. (date, fetchMealsForDate (attempts date) 0)) dates"

text \<open>
  What a week load does, in order: \<open>Issued date\<close> is a call of \<open>fetchMealsForDate\<close>
  pushed on the list of promises, \<open>Joined\<close> the \<open>await Promise.all\<close> of that list
  coming back, \<open>Published entries\<close> a \<open>setMeals\<close> that merges the entries into the
  state.
\<close>

datatype WeekEvent = Issued string | Joined | Published Entries

text \<open>
  \<open>fetchMealsForWeek\<close>. \<open>dates\<close> are the formatted dates of the days requested,
  \<open>weekCache\<close> the answer of the cache to the week's own read of each date (\<open>None\<close>
  when it throws), \<open>attempts date\<close> what the fetch of that date meets. The calls of one
  loop are all made before the join is awaited. On the path that has found cached
  records, every missing date is published by the \<open>then\<close> of its own fetch, so before
  the join; the fetches may end in any order, and the order of the dates is taken here
  (they write different keys).
\<close>

definition fetchMealsForWeek ::
  "string option \<Rightarrow> bool \<Rightarrow> string list \<Rightarrow> (string \<Rightarrow> CalendarMeal list option) \<Rightarrow>
   (string \<Rightarrow> nat \<Rightarrow> Attempt) \<Rightarrow> WeekEvent list" where
  "fetchMealsForWeek uid isRefresh dates weekCache attempts =
     (case uid of
        None \<Rightarrow> []
      | Some u \<Rightarrow>
          (let newMeals = (if isRefresh then [] else cachedEntries weekCache dates);
               datesWithData = filter (hasData newMeals) dates
           in if datesWithData = [] then
                map Issued dates @
                  [Joined, Published (newMeals @ fetchedEntries attempts dates)]
              else
                (let missingDates = filter (\<lambda>date. \<not> hasData newMeals date) dates
                 in Published newMeals #
                      (if missingDates = [] then []
                       else map Issued missingDates @
                            map (\<lambda>date. Published (fetchedEntries attempts [date])) missingDates @
                            [Joined]))))"

text \<open>The \<open>meals\<close> state after the publications of a load.\<close>

fun mealsAfter :: "MealsByDate \<Rightarrow> WeekEvent list \<Rightarrow> MealsByDate" where
  "mealsAfter prevMeals [] = prevMeals"
| "mealsAfter prevMeals (Published entries # events) =
     mealsAfter (mergeEntries prevMeals entries) events"
| "mealsAfter prevMeals (Issued date # events) = mealsAfter prevMeals events"
| "mealsAfter prevMeals (Joined # events) = mealsAfter prevMeals events"

text \<open>Whether a load has joined its fetches before its first publication.\<close>

fun joinedBeforePublished :: "WeekEvent list \<Rightarrow> bool" where
  "joinedBeforePublished [] = True"
| "joinedBeforePublished (Joined # events) = True"
| "joinedBeforePublished (Published entries # events) = False"
| "joinedBeforePublished (Issued date # events) = joinedBeforePublished events"

section \<open>Concrete inputs\<close>

text \<open>Records, filters and states on which the properties below are run.\<close>

definition mealWith :: "int \<Rightarrow> real \<Rightarrow> Meal" where
  "mealWith n kcal =
     \<lparr>id_meal = NumberId n, name = ''Pasta'', description = ''Dinner'', favorite = False,
      properties = [''calories'' \<mapsto> JNumber (Fin kcal)]\<rparr>"

definition caloriesBetween :: "string \<Rightarrow> string \<Rightarrow> Filter" where
  "caloriesBetween g l = \<lparr>type_filter = ''calories'', greaterThan = g, lessThan = l\<rparr>"

text \<open>The state once the stored filters have been restored, before the first fetch.\<close>

definition restoredState :: State where
  "restoredState = initialState\<lparr>filtersLoaded := True\<rparr>"

text \<open>
  A first page of twenty records has been loaded and the filter effect has run:
  more pages may exist, nothing is loading.
\<close>

definition firstPage :: "Meal list" where
  "firstPage = map (\<lambda>n. mealWith n 600) [1..20]"

definition firstPageState :: State where
  "firstPageState =
     initialState\<lparr>meals := firstPage, filteredMeals := firstPage, filteredMealsReady := True,
       loading := False, filtersLoaded := True\<rparr>"

text \<open>The same with a bound on the calories that none of the twenty records meets.\<close>

definition scarceState :: State where
  "scarceState = firstPageState\<lparr>filters := [caloriesBetween ''700'' []], filteredMeals := []\<rparr>"

text \<open>
  No record has arrived (the first fetch has failed, say) and nothing is loading; the
  filter effect has run.
\<close>

definition emptyState :: State where
  "emptyState =
     initialState\<lparr>filteredMealsReady := True, loading := False, filtersLoaded := True\<rparr>"

definition cachedEnv :: "Meal list \<Rightarrow> FetchEnv" where
  "cachedEnv ms = \<lparr>userId = Some ''u1'', cacheResult = Some ms, queryResult = QueryData []\<rparr>"

definition remoteEnv :: "Meal list \<Rightarrow> FetchEnv" where
  "remoteEnv rows = \<lparr>userId = Some ''u1'', cacheResult = None, queryResult = QueryData rows\<rparr>"

definition failingEnv :: "string \<Rightarrow> FetchEnv" where
  "failingEnv message =
     \<lparr>userId = Some ''u1'', cacheResult = None, queryResult = QueryError message\<rparr>"

text \<open>Two records, the second one a favorite, loaded and shown.\<close>

definition twoMeals :: "Meal list" where
  "twoMeals = [mealWith 1 600, (mealWith 2 500)\<lparr>favorite := True\<rparr>]"

definition twoMealsState :: State where
  "twoMealsState =
     initialState\<lparr>meals := twoMeals, filteredMeals := twoMeals, filteredMealsReady := True,
       loading := False, filtersLoaded := True, hasMoreMeals := False\<rparr>"

text \<open>
  Three days of a week: the fetch of the first day delivers at once, the fetch of the
  second fails in every attempt, the fetch of the third is rejected twice and delivers in
  its third attempt.
\<close>

definition lunch :: CalendarMeal where
  "lunch = \<lparr>calories = Some (Fin 500), protein = Some (Fin 30), carbohydrates = None,
            fat = Some (Fin 10)\<rparr>"

definition snack :: CalendarMeal where
  "snack = \<lparr>calories = Some (Fin 150), protein = None, carbohydrates = Some (Fin 20),
            fat = Some NaN\<rparr>"

definition failingAttempt :: Attempt where
  "failingAttempt = \<lparr>userId_attempt = Some ''u1'', cachedMeals = None, remote = Rejected\<rparr>"

definition successfulAttempt :: "CalendarMeal list \<Rightarrow> Attempt" where
  "successfulAttempt ms =
     \<lparr>userId_attempt = Some ''u1'', cachedMeals = None, remote = Resolved (Inr ms) (Inr [])\<rparr>"

definition weekAttempts :: "string \<Rightarrow> nat \<Rightarrow> Attempt" where
  "weekAttempts date k =
     (if date = ''2025-01-06'' then failingAttempt
      else if date = ''2025-01-07'' then (if k < 2 then failingAttempt else successfulAttempt [snack])
      else successfulAttempt [lunch])"

definition weekDates :: "string list" where
  "weekDates = [''2025-01-05'', ''2025-01-06'', ''2025-01-07'']"

text \<open>The cache has the records of the first of the three days and nothing else.\<close>

definition firstDayCached :: "string \<Rightarrow> CalendarMeal list option" where
  "firstDayCached date = (if date = ''2025-01-05'' then Some [lunch] else None)"

section \<open>The visible subset\<close>

lemma number_le_NaN [simp]: "number_le x NaN = False"
  by (cases x) simp_all

lemma digitsPrefix_examples:
  "digitsPrefix ''500'' = Fin 500" "digitsPrefix ''700'' = Fin 700"
  by (simp_all add: digitsPrefix_def digitValue_def)

lemma not_number_le_iff: "x \<noteq> NaN \<Longrightarrow> y \<noteq> NaN \<Longrightarrow> (\<not> number_le x y) = number_lt y x"
  by (cases x; cases y) (auto simp: number_lt_def)

lemma passesFilter_iff:
  "passesFilter np meal f \<longleftrightarrow>
     (\<forall>raw. property meal (type_filter f) = Some raw \<longrightarrow> \<not> isNaN (parseFloat np raw) \<longrightarrow>
        (\<not> isNaN (parseFloat np (JString (greaterThan f))) \<longrightarrow>
           number_lt (parseFloat np (JString (greaterThan f))) (parseFloat np raw)) \<and>
        (\<not> isNaN (parseFloat np (JString (lessThan f))) \<longrightarrow>
           number_lt (parseFloat np raw) (parseFloat np (JString (lessThan f)))))"
proof (cases "property meal (type_filter f)")
  case None
  then show ?thesis by (simp add: passesFilter_def)
next
  case (Some raw)
  show ?thesis
  proof (cases "isNaN (parseFloat np raw)")
    case True
    then show ?thesis
      using Some by (simp add: passesFilter_def Let_def isNaN_def number_ge_def)
  next
    case False
    then show ?thesis
      using Some
      by (auto simp: passesFilter_def Let_def isNaN_def number_ge_def not_number_le_iff[symmetric])
  qed
qed

lemma passesFilter_unset:
  "greaterThan f = [] \<Longrightarrow> lessThan f = [] \<Longrightarrow> passesFilter np meal f"
  by (simp add: passesFilter_def parseFloat_def isNaN_def split: option.splits)

text \<open>
  Claim C1. A record of the input is kept exactly when it passes the search and, for every
  filter entry whose field the record has with a value that is a number, that value is
  strictly greater than \<open>greaterThan\<close> when this bound parses to a number, and strictly
  less than \<open>lessThan\<close> when that bound parses to a number. So a value equal to a bound
  excludes the record, and an entry whose field the record does not have excludes
  nothing. A field that is there without a numeric value (\<open>null\<close>, say) passes like a
  field that is not there. The bounds that count include the finite ones the claim
  names.
\<close>

theorem filtered_iff_bounds:
  "meal \<in> set (filtered np lower fs q ms) \<longleftrightarrow>
     meal \<in> set ms \<and> passesSearch lower q meal \<and>
     (\<forall>f \<in> set fs. \<forall>raw. property meal (type_filter f) = Some raw \<longrightarrow>
        \<not> isNaN (parseFloat np raw) \<longrightarrow>
        (\<not> isNaN (parseFloat np (JString (greaterThan f))) \<longrightarrow>
           number_lt (parseFloat np (JString (greaterThan f))) (parseFloat np raw)) \<and>
        (\<not> isNaN (parseFloat np (JString (lessThan f))) \<longrightarrow>
           number_lt (parseFloat np raw) (parseFloat np (JString (lessThan f)))))"
  unfolding filtered_def passesFilters_def list_all_iff set_filter mem_Collect_eq passesFilter_iff
  by blast

text \<open>
  With the bounds 500 and 700 on the calories: 600 is kept, 500 and 700 are not, and a
  bound on a field the record does not have keeps it.
\<close>

theorem filtered_iff_bounds_witness:
  "mealWith 1 600 \<in> set (filtered digitsPrefix asciiLowerCase [caloriesBetween ''500'' ''700''] [] [mealWith 1 600]) \<and>
   mealWith 2 500 \<notin> set (filtered digitsPrefix asciiLowerCase [caloriesBetween ''500'' ''700''] [] [mealWith 2 500]) \<and>
   mealWith 3 700 \<notin> set (filtered digitsPrefix asciiLowerCase [caloriesBetween ''500'' ''700''] [] [mealWith 3 700]) \<and>
   mealWith 4 600 \<in> set (filtered digitsPrefix asciiLowerCase
       [\<lparr>type_filter = ''fiber'', greaterThan = ''500'', lessThan = []\<rparr>] [] [mealWith 4 600])"
  using
    filtered_iff_bounds [of "mealWith 1 600" digitsPrefix asciiLowerCase
      "[caloriesBetween ''500'' ''700'']"
      "[]" "[mealWith 1 600]"]
    filtered_iff_bounds [of "mealWith 2 500" digitsPrefix asciiLowerCase
      "[caloriesBetween ''500'' ''700'']"
      "[]" "[mealWith 2 500]"]
    filtered_iff_bounds [of "mealWith 3 700" digitsPrefix asciiLowerCase
      "[caloriesBetween ''500'' ''700'']"
      "[]" "[mealWith 3 700]"]
    filtered_iff_bounds [of "mealWith 4 600" digitsPrefix asciiLowerCase
      "[\<lparr>type_filter = ''fiber'', greaterThan = ''500'', lessThan = []\<rparr>]" "[]" "[mealWith 4 600]"]
  by (simp add: mealWith_def caloriesBetween_def property_def parseFloat_def isNaN_def
      number_lt_def passesSearch_def digitsPrefix_examples)

text \<open>
  Claim C2. When every bound is the empty string and the search query is empty, the
  visible subset is the input list itself. For every filter and query the visible subset
  is a function of the input (the same input gives the same subset), it is a subsequence
  of the input, and the effect that computes it leaves the record set as it was.
\<close>

theorem filtered_identity_and_order:
  "((\<forall>f \<in> set fs. greaterThan f = [] \<and> lessThan f = []) \<longrightarrow> filtered np lower fs [] ms = ms) \<and>
   subseq (filtered np lower fs q ms) ms \<and>
   meals (fst (filterEffect np lower snap cur)) = meals cur"
  by (simp add: filtered_def passesFilters_def list_all_iff passesFilter_unset passesSearch_def
      filterEffect_def Let_def)

theorem filtered_identity_and_order_witness:
  "filtered digitsPrefix asciiLowerCase defaultFilters [] [mealWith 1 600, mealWith 2 500] =
     [mealWith 1 600, mealWith 2 500] \<and>
   subseq (filtered digitsPrefix asciiLowerCase [caloriesBetween ''500'' ''700''] [] [mealWith 1 600, mealWith 2 500])
     [mealWith 1 600, mealWith 2 500]"
  using
    filtered_identity_and_order [where fs = defaultFilters and np = digitsPrefix
      and lower = asciiLowerCase and ms = "[mealWith 1 600, mealWith 2 500]"]
    filtered_identity_and_order [where fs = "[caloriesBetween ''500'' ''700'']"
      and np = digitsPrefix and lower = asciiLowerCase and q = "[]"
      and ms = "[mealWith 1 600, mealWith 2 500]"]
  by (simp add: defaultFilters_def)

section \<open>Pagination\<close>

lemma fetchMyMeals_hasMore:
  assumes "filtersLoaded snap"
    and "fetchNewMeals snap loadMore env = (Inr newMeals, effects)"
  shows "hasMoreMeals (fst (fetchMyMeals snap isRefresh loadMore env cur)) =
           (length newMeals = MEALS_PER_PAGE)"
  using assms by (simp add: fetchMyMeals_def fetchMyMeals_end_def Let_def)

text \<open>
  Claim C3, as the code has it. A fetch that has delivered a batch sets \<open>hasMore\<close> to
  whether the batch has exactly 20 records: it becomes false precisely when the size of
  the batch differs from 20. For a batch of at most 20 records, which is what a page of
  the remote source is, that is precisely when the batch has fewer than 20.
\<close>

theorem hasMore_after_fetch:
  "filtersLoaded snap \<and> fetchNewMeals snap loadMore env = (Inr newMeals, effects) \<longrightarrow>
     hasMoreMeals (fst (fetchMyMeals snap isRefresh loadMore env cur)) =
       (length newMeals = MEALS_PER_PAGE) \<and>
     (length newMeals \<le> MEALS_PER_PAGE \<longrightarrow>
        (\<not> hasMoreMeals (fst (fetchMyMeals snap isRefresh loadMore env cur))) =
          (length newMeals < MEALS_PER_PAGE))"
  using fetchMyMeals_hasMore [of snap loadMore env newMeals effects isRefresh cur]
  by auto

text \<open>
  The second page comes back with five records, and \<open>hasMore\<close> is false afterwards; a
  page of twenty records leaves it true.
\<close>

theorem hasMore_after_fetch_witness:
  "fetchNewMeals firstPageState True (remoteEnv (map (\<lambda>n. mealWith n 600) [21..25])) =
     (Inr (map (\<lambda>n. mealWith n 600) [21..25]), [RemoteQuery 20 39]) \<and>
   \<not> hasMoreMeals (fst (fetchMyMeals firstPageState False True
        (remoteEnv (map (\<lambda>n. mealWith n 600) [21..25])) firstPageState)) \<and>
   fetchNewMeals firstPageState True (remoteEnv (map (\<lambda>n. mealWith n 600) [21..40])) =
     (Inr (map (\<lambda>n. mealWith n 600) [21..40]), [RemoteQuery 20 39]) \<and>
   hasMoreMeals (fst (fetchMyMeals firstPageState False True
        (remoteEnv (map (\<lambda>n. mealWith n 600) [21..40])) firstPageState))"
proof -
  have fetched: "fetchNewMeals firstPageState True (remoteEnv rows) = (Inr rows, [RemoteQuery 20 39])"
    for rows
    by (simp add: fetchNewMeals_def remoteEnv_def firstPageState_def initialState_def
        MEALS_PER_PAGE_def Let_def)
  have loaded: "filtersLoaded firstPageState"
    by (simp add: firstPageState_def)
  show ?thesis
    using fetched loaded
      hasMore_after_fetch [of firstPageState True "remoteEnv (map (\<lambda>n. mealWith n 600) [21..25])"
        "map (\<lambda>n. mealWith n 600) [21..25]" "[RemoteQuery 20 39]" False firstPageState]
      hasMore_after_fetch [of firstPageState True "remoteEnv (map (\<lambda>n. mealWith n 600) [21..40])"
        "map (\<lambda>n. mealWith n 600) [21..40]" "[RemoteQuery 20 39]" False firstPageState]
    by (simp add: MEALS_PER_PAGE_def)
qed

text \<open>
  The claim as stated fails on a batch of more than 20 records, which the cache can
  deliver on the first load: with 21 cached records \<open>hasMore\<close> becomes false although
  the batch is not smaller than the page size.
\<close>

theorem hasMore_after_fetch_counterexample:
  "fetchNewMeals restoredState False (cachedEnv (replicate 21 (mealWith 1 600))) =
     (Inr (replicate 21 (mealWith 1 600)), [CacheRead]) \<and>
   \<not> ((\<not> hasMoreMeals (fst (fetchMyMeals restoredState False False
            (cachedEnv (replicate 21 (mealWith 1 600))) restoredState))) =
        (length (replicate 21 (mealWith 1 600)) < MEALS_PER_PAGE))"
  by (simp add: fetchNewMeals_def fetchMyMeals_def fetchMyMeals_end_def fetchMyMeals_begin_def
      cachedEnv_def restoredState_def initialState_def MEALS_PER_PAGE_def Let_def)

text \<open>
  Whether a call of \<open>loadMore\<close> sends a request after the last page depends on the
  render its callback comes from. The callback of a render that has \<open>hasMore\<close> false
  does nothing. The callback of the render before the last page arrived still reads
  \<open>hasMore\<close> as true: called after that page has set the flag to false, it asks for the
  rows 20 to 39 again.
\<close>

lemma loadMoreMeals_no_more:
  "\<not> hasMoreMeals snap \<Longrightarrow> loadMoreMeals snap env cur = (cur, [])"
  by (simp add: loadMoreMeals_def)

lemma loadMore_after_last_page:
  "\<not> hasMoreMeals (fst (fetchMyMeals firstPageState False True (remoteEnv [mealWith 21 600])
                          firstPageState)) \<and>
   snd (loadMoreMeals firstPageState (remoteEnv [])
          (fst (fetchMyMeals firstPageState False True (remoteEnv [mealWith 21 600])
                  firstPageState))) = [RemoteQuery 20 39]"
  by (simp add: loadMoreMeals_def fetchMyMeals_def fetchMyMeals_begin_def fetchMyMeals_end_def
      fetchNewMeals_def remoteEnv_def firstPageState_def initialState_def MEALS_PER_PAGE_def
      Let_def)

section \<open>Load-more, backfill and retries\<close>

lemma loadMoreMeals_begin_guard:
  "snd (loadMoreMeals_begin snap cur) =
     (if \<not> loadingMore snap \<and> hasMoreMeals snap \<and> filteredMealsReady snap \<and> filtersLoaded snap
      then [(False, True, currentPage snap + 1)] else [])"
  by (simp add: loadMoreMeals_begin_def fetchMyMeals_start_def)

lemma loadMoreMeals_begin_sets_flag:
  "snd (loadMoreMeals_begin snap cur) \<noteq> [] \<Longrightarrow> loadingMore (fst (loadMoreMeals_begin snap cur))"
  by (simp add: loadMoreMeals_begin_def fetchMyMeals_start_def fetchMyMeals_begin_def
      split: if_splits)

lemma loadMoreMeals_begin_after_render:
  "loadingMore snap \<Longrightarrow> loadMoreMeals_begin snap cur = (cur, [])"
  by (simp add: loadMoreMeals_begin_def)

text \<open>A whole run of \<open>loadMoreMeals\<close> is its start followed by the rest of the fetch.\<close>

lemma loadMoreMeals_phases:
  "loadMoreMeals snap env cur =
     (if snd (loadMoreMeals_begin snap cur) = [] then (cur, [])
      else fetchMyMeals_end snap False True env (fst (loadMoreMeals_begin snap cur)))"
  by (simp add: loadMoreMeals_def loadMoreMeals_begin_def fetchMyMeals_start_def fetchMyMeals_def)

text \<open>
  Two timers for one callback. A pass of the filter effect sets its timer; a keystroke
  in the search box changes none of the values \<open>loadMoreMeals\<close> depends on, so the
  next render keeps the callback, and its pass sets a second timer. When the first timer
  fires a fetch starts; when the second fires, the callback reads what it read before
  and starts another.
\<close>

lemma two_pending_backfill_timers:
  "snd (filterEffect digitsPrefix asciiLowerCase scarceState scarceState) = [SetTimeout 100 LoadMoreMeals] \<and>
   snd (filterEffect digitsPrefix asciiLowerCase (scarceState\<lparr>searchQuery := ''p''\<rparr>)
          (scarceState\<lparr>searchQuery := ''p''\<rparr>)) = [SetTimeout 100 LoadMoreMeals] \<and>
   loadMoreMeals_begin scarceState (scarceState\<lparr>searchQuery := ''p''\<rparr>) =
     (scarceState\<lparr>searchQuery := ''p'', loadingMore := True\<rparr>, [(False, True, 1)]) \<and>
   loadMoreMeals_begin (scarceState\<lparr>searchQuery := ''p''\<rparr>)
       (scarceState\<lparr>searchQuery := ''p'', loadingMore := True\<rparr>) =
     (scarceState\<lparr>searchQuery := ''p'', loadingMore := True\<rparr>, [(False, True, 1)])"
proof -
  have none: "filtered digitsPrefix asciiLowerCase [caloriesBetween ''700'' []] q firstPage = []" for q
    by (simp add: filtered_def firstPage_def passesFilters_def passesFilter_def caloriesBetween_def
        mealWith_def property_def parseFloat_def isNaN_def digitsPrefix_examples Let_def
        filter_empty_conv)
  show ?thesis
    using none
    by (simp add: filterEffect_def loadMoreMeals_begin_def fetchMyMeals_start_def
        fetchMyMeals_begin_def scarceState_def firstPageState_def initialState_def firstPage_def
        Let_def)
qed

text \<open>
  Claim C4, on the code. The guard of \<open>loadMoreMeals\<close> reads the \<open>loadingMore\<close> of the
  render that made the callback. Two calls of the callback of one render (two pending
  backfill timers, or the list's end-reached event next to a timer) both pass it: the
  first puts a fetch of page 1 in flight and sets \<open>loadingMore\<close>, the second, run in the
  state the first has left, puts a second fetch of the same page in flight. Each sends
  its own request for the rows 20 to 39, and once both have finished the page is in the
  list twice. Only the callback of a later render, which has seen \<open>loadingMore\<close>, does
  nothing.
\<close>

theorem loadMore_twice_from_one_render:
  "loadMoreMeals_begin firstPageState firstPageState =
     (firstPageState\<lparr>loadingMore := True\<rparr>, [(False, True, 1)]) \<and>
   loadMoreMeals_begin firstPageState (firstPageState\<lparr>loadingMore := True\<rparr>) =
     (firstPageState\<lparr>loadingMore := True\<rparr>, [(False, True, 1)]) \<and>
   snd (loadMoreMeals firstPageState (remoteEnv [mealWith 21 600]) firstPageState) =
     [RemoteQuery 20 39] \<and>
   snd (loadMoreMeals firstPageState (remoteEnv [mealWith 21 600])
          (fst (loadMoreMeals firstPageState (remoteEnv [mealWith 21 600]) firstPageState))) =
     [RemoteQuery 20 39] \<and>
   meals (fst (loadMoreMeals firstPageState (remoteEnv [mealWith 21 600])
          (fst (loadMoreMeals firstPageState (remoteEnv [mealWith 21 600]) firstPageState)))) =
     firstPage @ [mealWith 21 600] @ [mealWith 21 600] \<and>
   loadMoreMeals_begin (firstPageState\<lparr>loadingMore := True\<rparr>)
       (firstPageState\<lparr>loadingMore := True\<rparr>) =
     (firstPageState\<lparr>loadingMore := True\<rparr>, [])"
  by (simp add: loadMoreMeals_begin_def fetchMyMeals_start_def loadMoreMeals_def fetchMyMeals_def
      fetchMyMeals_begin_def fetchMyMeals_end_def fetchNewMeals_def remoteEnv_def
      firstPageState_def initialState_def MEALS_PER_PAGE_def Let_def)





text \<open>
  The empty state above is the one a first fetch leaves when the query fails, once the
  filter effect has run.
\<close>

lemma emptyState_reached:
  "fst (filterEffect digitsPrefix asciiLowerCase
         (fst (fetchMyMeals restoredState False False (failingEnv ''Network request failed'')
                 restoredState))
         (fst (fetchMyMeals restoredState False False (failingEnv ''Network request failed'')
                 restoredState))) =
   emptyState\<lparr>error := Some ''Network request failed''\<rparr>"
  by (simp add: filterEffect_def fetchMyMeals_def fetchMyMeals_begin_def fetchMyMeals_end_def
      fetchNewMeals_def failingEnv_def restoredState_def emptyState_def initialState_def
      filtered_def MEALS_PER_PAGE_def Let_def)

text \<open>
  With a first page of twenty records of which none is visible, the call the timer makes
  starts one fetch of the second page.
\<close>

lemma backfill_example:
  "snd (backfill digitsPrefix asciiLowerCase scarceState scarceState) = [(False, True, 1)]"
proof -
  have "filtered digitsPrefix asciiLowerCase [caloriesBetween ''700'' []] [] firstPage = []"
    by (simp add: filtered_def firstPage_def passesFilters_def passesFilter_def caloriesBetween_def
        mealWith_def property_def parseFloat_def isNaN_def digitsPrefix_examples Let_def
        filter_empty_conv)
  then show ?thesis
    by (simp add: backfill_def filterEffect_def loadMoreMeals_begin_def fetchMyMeals_start_def
        scarceState_def firstPageState_def initialState_def firstPage_def Let_def)
qed

subsection \<open>Retries\<close>

lemma fetchMyMeals_failure:
  assumes "filtersLoaded snap"
    and "fetchNewMeals snap loadMore env = (Inl message, effects)"
  shows "fetchMyMeals snap isRefresh loadMore env cur =
           ((fetchMyMeals_begin snap isRefresh loadMore cur)
              \<lparr>error := Some message, loading := False, refreshing := False, loadingMore := False\<rparr>,
            effects @
              (if retryCount snap < 3 \<and> \<not> includes_str message ''Authentication''
               then [SetTimeout (2 ^ retryCount snap * 1000) (RetryFetch isRefresh loadMore)]
               else []))"
  using assms by (simp add: fetchMyMeals_def fetchMyMeals_end_def Let_def)

lemma fetchMyMeals_unauthenticated:
  assumes "filtersLoaded snap" and "userId env = None"
  shows "snd (fetchMyMeals snap isRefresh loadMore env cur) = []"
    and "error (fst (fetchMyMeals snap isRefresh loadMore env cur)) =
           Some ''Authentication required. Please log in again.''"
  using assms
  by (simp_all add: fetchMyMeals_def fetchMyMeals_end_def fetchNewMeals_def Let_def)

lemma failing_fetch_retryDelay:
  assumes "filtersLoaded snap" and "retryCount snap < 3"
  shows "retryDelay (snd (fetchMyMeals snap isRefresh loadMore
                            (failingEnv ''Network request failed'') cur)) =
           Some (2 ^ retryCount snap * 1000)"
  using assms
  by (simp add: fetchMyMeals_def fetchMyMeals_end_def fetchNewMeals_def failingEnv_def Let_def)

text \<open>
  Every retry runs in the closure of the fetch that failed, so it reads the
  \<open>retryCount\<close> that fetch has read: as long as the query fails the next timer is set,
  always with the same delay, while the \<open>retryCount\<close> of the state counts on.
\<close>

lemma retries_do_not_stop:
  assumes "filtersLoaded snap" and "retryCount snap < 3"
  shows "snd (fetchWithRetries snap isRefresh loadMore
                (replicate n (failingEnv ''Network request failed'')) cur) =
           replicate n (2 ^ retryCount snap * 1000)"
proof (induction n arbitrary: cur)
  case 0
  show ?case by simp
next
  case (Suc n)
  obtain c effects where run:
    "fetchMyMeals snap isRefresh loadMore (failingEnv ''Network request failed'') cur = (c, effects)"
    by (cases "fetchMyMeals snap isRefresh loadMore (failingEnv ''Network request failed'') cur")
  have delay: "retryDelay effects = Some (2 ^ retryCount snap * 1000)"
    using failing_fetch_retryDelay [OF assms, of isRefresh loadMore cur] run by simp
  obtain c' delays where rest:
    "fetchWithRetries snap isRefresh loadMore (replicate n (failingEnv ''Network request failed''))
       (c\<lparr>retryCount := retryCount c + 1\<rparr>) = (c', delays)"
    by (cases "fetchWithRetries snap isRefresh loadMore
                 (replicate n (failingEnv ''Network request failed''))
                 (c\<lparr>retryCount := retryCount c + 1\<rparr>)")
  have "delays = replicate n (2 ^ retryCount snap * 1000)"
    using Suc.IH [of "c\<lparr>retryCount := retryCount c + 1\<rparr>"] rest by simp
  then show ?case
    using run delay rest by simp
qed

text \<open>
  Claim C8, on the code. A refresh whose query fails five times in a row with a network
  error: five retry timers are set, each of 1000 ms, and the fifth failure has set the
  next one; the \<open>retryCount\<close> of the state has reached 5. The retries keep the mode of
  the request, and a failed authentication sets no timer (lemmas
  \<open>fetchMyMeals_failure\<close>, \<open>fetchMyMeals_unauthenticated\<close>).
\<close>

theorem retries_of_failing_refresh:
  "snd (fetchWithRetries restoredState True False
          [failingEnv ''Network request failed'', failingEnv ''Network request failed'',
           failingEnv ''Network request failed'', failingEnv ''Network request failed'',
           failingEnv ''Network request failed''] restoredState) =
     [1000, 1000, 1000, 1000, 1000] \<and>
   retryCount (fst (fetchWithRetries restoredState True False
          [failingEnv ''Network request failed'', failingEnv ''Network request failed'',
           failingEnv ''Network request failed'', failingEnv ''Network request failed'',
           failingEnv ''Network request failed''] restoredState)) = 5 \<and>
   error (fst (fetchWithRetries restoredState True False
          [failingEnv ''Network request failed'', failingEnv ''Network request failed'',
           failingEnv ''Network request failed'', failingEnv ''Network request failed'',
           failingEnv ''Network request failed''] restoredState)) = Some ''Network request failed''"
  by (simp add: fetchMyMeals_def fetchMyMeals_begin_def fetchMyMeals_end_def fetchNewMeals_def
      failingEnv_def restoredState_def initialState_def MEALS_PER_PAGE_def Let_def)

section \<open>Toggling the favorite flag\<close>

lemma setFavorite_length [simp]: "length (setFavorite mealId status ms) = length ms"
  by (simp add: setFavorite_def)

lemma setFavorite_nth:
  "i < length ms \<Longrightarrow>
     setFavorite mealId status ms ! i =
       (if id_meal (ms ! i) = mealId then (ms ! i)\<lparr>favorite := status\<rparr> else ms ! i)"
  by (simp add: setFavorite_def)

lemma setFavorite_captured:
  assumes unique: "distinct (map id_meal ms)"
    and found: "find (\<lambda>meal. id_meal meal = mealId) ms = Some currentMeal"
  shows "setFavorite mealId (favorite currentMeal) ms = ms"
proof -
  have cur: "currentMeal \<in> set ms" "id_meal currentMeal = mealId"
    using found by (auto simp: find_Some_iff)
  have inj: "inj_on id_meal (set ms)"
    using unique by (simp add: distinct_map)
  have "(if id_meal m = mealId then m\<lparr>favorite := favorite currentMeal\<rparr> else m) = m"
    if "m \<in> set ms" for m
  proof (cases "id_meal m = mealId")
    case True
    then have "m = currentMeal"
      using inj that cur by (auto dest: inj_onD)
    then show ?thesis by simp
  next
    case False
    then show ?thesis by simp
  qed
  then show ?thesis
    unfolding setFavorite_def by (simp add: map_idI)
qed

lemma toggleFavorite_failed:
  assumes "favoriteLoading snap (toPropertyKey mealId) \<noteq> Some True"
    and "\<not> isMacroId mealId"
    and "find (\<lambda>meal. id_meal meal = mealId) (meals snap) = Some currentMeal"
  shows "meals (fst (toggleFavorite snap mealId (Some message) cur)) =
           setFavorite mealId (favorite currentMeal) (meals snap)"
    and "error (fst (toggleFavorite snap mealId (Some message) cur)) =
           Some (if message = [] then ''Failed to update favorite status'' else message)"
    and "snd (toggleFavorite snap mealId (Some message) cur) =
           [RemoteUpdate mealId (\<not> favorite currentMeal),
            Alert ''Error'' (if message = [] then ''Failed to update favorite status'' else message)]"
  using assms by (simp_all add: toggleFavorite_def Let_def)

text \<open>
  Claim C6. Take a call of \<open>toggleFavorite\<close> that gets as far as the remote update (no
  toggle of the id is in flight, the id is not a derived one, and the collection of the
  calling render has a record with it), and let the update fail. Then the update that
  was sent asked for the flipped flag, the error is stored and shown in an alert, and the
  collection has the records of before the call in their places: a record with another
  id is what it was, a record with this id has the flag captured before the call and
  its other fields as before. With ids that are unique the collection is the one of
  before the call.
\<close>

theorem toggleFavorite_rollback:
  "favoriteLoading snap (toPropertyKey mealId) \<noteq> Some True \<and> \<not> isMacroId mealId \<and>
   find (\<lambda>meal. id_meal meal = mealId) (meals snap) = Some currentMeal \<longrightarrow>
     snd (toggleFavorite snap mealId (Some message) cur) =
       [RemoteUpdate mealId (\<not> favorite currentMeal),
        Alert ''Error'' (if message = [] then ''Failed to update favorite status'' else message)] \<and>
     error (fst (toggleFavorite snap mealId (Some message) cur)) =
       Some (if message = [] then ''Failed to update favorite status'' else message) \<and>
     length (meals (fst (toggleFavorite snap mealId (Some message) cur))) = length (meals snap) \<and>
     (\<forall>i < length (meals snap).
        meals (fst (toggleFavorite snap mealId (Some message) cur)) ! i =
          (if id_meal (meals snap ! i) = mealId
           then (meals snap ! i)\<lparr>favorite := favorite currentMeal\<rparr>
           else meals snap ! i)) \<and>
     (distinct (map id_meal (meals snap)) \<longrightarrow>
        meals (fst (toggleFavorite snap mealId (Some message) cur)) = meals snap)"
proof (intro impI, elim conjE)
  assume guard: "favoriteLoading snap (toPropertyKey mealId) \<noteq> Some True"
    and plain: "\<not> isMacroId mealId"
    and found: "find (\<lambda>meal. id_meal meal = mealId) (meals snap) = Some currentMeal"
  note failed = toggleFavorite_failed [OF guard plain found, of message cur]
  show "snd (toggleFavorite snap mealId (Some message) cur) =
       [RemoteUpdate mealId (\<not> favorite currentMeal),
        Alert ''Error'' (if message = [] then ''Failed to update favorite status'' else message)] \<and>
     error (fst (toggleFavorite snap mealId (Some message) cur)) =
       Some (if message = [] then ''Failed to update favorite status'' else message) \<and>
     length (meals (fst (toggleFavorite snap mealId (Some message) cur))) = length (meals snap) \<and>
     (\<forall>i < length (meals snap).
        meals (fst (toggleFavorite snap mealId (Some message) cur)) ! i =
          (if id_meal (meals snap ! i) = mealId
           then (meals snap ! i)\<lparr>favorite := favorite currentMeal\<rparr>
           else meals snap ! i)) \<and>
     (distinct (map id_meal (meals snap)) \<longrightarrow>
        meals (fst (toggleFavorite snap mealId (Some message) cur)) = meals snap)"
    unfolding failed
    using setFavorite_captured [OF _ found]
    by (simp add: setFavorite_nth)
qed

text \<open>
  The favorite flag of record 2 is set; the update that clears it fails with the message
  \<open>offline\<close>: the collection is as before, and the message is the stored error.
\<close>

theorem toggleFavorite_rollback_witness:
  "find (\<lambda>meal. id_meal meal = NumberId 2) (meals twoMealsState) =
     Some ((mealWith 2 500)\<lparr>favorite := True\<rparr>) \<and>
   snd (toggleFavorite twoMealsState (NumberId 2) (Some ''offline'') twoMealsState) =
     [RemoteUpdate (NumberId 2) False, Alert ''Error'' ''offline''] \<and>
   error (fst (toggleFavorite twoMealsState (NumberId 2) (Some ''offline'') twoMealsState)) =
     Some ''offline'' \<and>
   meals (fst (toggleFavorite twoMealsState (NumberId 2) (Some ''offline'') twoMealsState)) =
     meals twoMealsState"
proof -
  have found: "find (\<lambda>meal. id_meal meal = NumberId 2) (meals twoMealsState) =
      Some ((mealWith 2 500)\<lparr>favorite := True\<rparr>)"
    by (simp add: twoMealsState_def twoMeals_def mealWith_def)
  have guard: "favoriteLoading twoMealsState (toPropertyKey (NumberId 2)) \<noteq> Some True"
    by (simp add: twoMealsState_def initialState_def)
  have plain: "\<not> isMacroId (NumberId 2)"
    by (simp add: isMacroId_def)
  have unique: "distinct (map id_meal (meals twoMealsState))"
    by (simp add: twoMealsState_def twoMeals_def mealWith_def)
  show ?thesis
    using found guard plain unique
      toggleFavorite_rollback [of twoMealsState "NumberId 2" "(mealWith 2 500)\<lparr>favorite := True\<rparr>"
        "''offline''" twoMealsState]
    by simp
qed

text \<open>
  Claim C7. For a derived id (a string that starts with \<open>macro_\<close>) the call returns the
  state as it is and leaves no request, timer or alert. For another id of which no toggle
  is in flight, when no record of the collection has the id, the call ends with the error
  \<open>Meal not found\<close>, stored and shown in an alert; it sends no request and leaves the
  collection alone.
\<close>

theorem toggleFavorite_derived_or_missing:
  "(isMacroId mealId \<longrightarrow> toggleFavorite snap mealId updateError cur = (cur, [])) \<and>
   (\<not> isMacroId mealId \<and> favoriteLoading snap (toPropertyKey mealId) \<noteq> Some True \<and>
    (\<forall>meal \<in> set (meals snap). id_meal meal \<noteq> mealId) \<longrightarrow>
      error (fst (toggleFavorite snap mealId updateError cur)) = Some ''Meal not found'' \<and>
      snd (toggleFavorite snap mealId updateError cur) = [Alert ''Error'' ''Meal not found''] \<and>
      meals (fst (toggleFavorite snap mealId updateError cur)) = meals cur)"
proof (intro conjI impI)
  assume "isMacroId mealId"
  then show "toggleFavorite snap mealId updateError cur = (cur, [])"
    by (simp add: toggleFavorite_def)
next
  assume missing: "\<not> isMacroId mealId \<and> favoriteLoading snap (toPropertyKey mealId) \<noteq> Some True \<and>
    (\<forall>meal \<in> set (meals snap). id_meal meal \<noteq> mealId)"
  then have none: "find (\<lambda>meal. id_meal meal = mealId) (meals snap) = None"
    by (simp add: find_None_iff)
  show "error (fst (toggleFavorite snap mealId updateError cur)) = Some ''Meal not found''"
    using missing none by (simp add: toggleFavorite_def Let_def)
  show "snd (toggleFavorite snap mealId updateError cur) = [Alert ''Error'' ''Meal not found'']"
    using missing none by (simp add: toggleFavorite_def Let_def)
  show "meals (fst (toggleFavorite snap mealId updateError cur)) = meals cur"
    using missing none by (simp add: toggleFavorite_def Let_def)
qed

theorem toggleFavorite_derived_or_missing_witness:
  "isMacroId (StringId ''macro_42'') \<and>
   toggleFavorite twoMealsState (StringId ''macro_42'') None twoMealsState = (twoMealsState, []) \<and>
   \<not> isMacroId (NumberId 99) \<and>
   error (fst (toggleFavorite twoMealsState (NumberId 99) None twoMealsState)) =
     Some ''Meal not found'' \<and>
   snd (toggleFavorite twoMealsState (NumberId 99) None twoMealsState) =
     [Alert ''Error'' ''Meal not found''] \<and>
   meals (fst (toggleFavorite twoMealsState (NumberId 99) None twoMealsState)) = twoMeals"
proof -
  have derived: "isMacroId (StringId ''macro_42'')"
    by (simp add: isMacroId_def)
  have plain: "\<not> isMacroId (NumberId 99)"
    by (simp add: isMacroId_def)
  have guard: "favoriteLoading twoMealsState (toPropertyKey (NumberId 99)) \<noteq> Some True"
    by (simp add: twoMealsState_def initialState_def)
  have missing: "\<forall>meal \<in> set (meals twoMealsState). id_meal meal \<noteq> NumberId 99"
    by (simp add: twoMealsState_def twoMeals_def mealWith_def)
  have shown: "meals twoMealsState = twoMeals"
    by (simp add: twoMealsState_def)
  show ?thesis
    using derived plain guard missing shown
      toggleFavorite_derived_or_missing [of "StringId ''macro_42''" twoMealsState None twoMealsState]
      toggleFavorite_derived_or_missing [of "NumberId 99" twoMealsState None twoMealsState]
    by simp
qed

section \<open>The calendar\<close>

subsection \<open>One date\<close>

lemma fetchMealsForDate_retried:
  "retried (a k) \<Longrightarrow>
     fetchMealsForDate a k = (if k < 2 then fetchMealsForDate a (k + 1) else [])"
  by (auto simp: retried_def fetchMealsForDate.simps [of a k]
      split: option.splits list.splits RemoteOutcome.splits sum.splits)

lemma fetchMealsForDate_delivered:
  "delivered (a k) = Some ms \<Longrightarrow> fetchMealsForDate a k = ms"
  by (auto simp: delivered_def fetchMealsForDate.simps [of a k]
      split: option.splits list.splits RemoteOutcome.splits sum.splits)

lemma fetchMealsForDate_given_up:
  "\<not> retried (a k) \<Longrightarrow> delivered (a k) = None \<Longrightarrow> fetchMealsForDate a k = []"
  by (auto simp: retried_def delivered_def fetchMealsForDate.simps [of a k]
      split: option.splits list.splits RemoteOutcome.splits sum.splits)

lemma fetchMealsForDate_skip:
  "k \<le> 2 \<Longrightarrow> \<forall>j < k. retried (a j) \<Longrightarrow> fetchMealsForDate a 0 = fetchMealsForDate a k"
proof (induction k)
  case 0
  show ?case by simp
next
  case (Suc k)
  then have "fetchMealsForDate a 0 = fetchMealsForDate a k"
    by simp
  moreover have "fetchMealsForDate a k = fetchMealsForDate a (Suc k)"
    using Suc.prems fetchMealsForDate_retried [of a k] by simp
  ultimately show ?case by simp
qed

lemma fetchMealsForDate_exhausted:
  assumes "\<forall>j < 3. retried (a j)"
  shows "fetchMealsForDate a 0 = []"
proof -
  have "fetchMealsForDate a 0 = fetchMealsForDate a 2"
    using assms fetchMealsForDate_skip [of 2 a] by simp
  then show ?thesis
    using assms fetchMealsForDate_retried [of a 2] by simp
qed

subsection \<open>A week\<close>

lemma mergeEntries_append:
  "mergeEntries m (xs @ ys) = mergeEntries (mergeEntries m xs) ys"
  by (simp add: mergeEntries_def)

lemma mergeEntries_fetched:
  "mergeEntries m (fetchedEntries tries ds) d =
     (if d \<in> set ds then Some (fetchMealsForDate (tries d) 0) else m d)"
  unfolding mergeEntries_def fetchedEntries_def
  by (induction ds arbitrary: m) auto

lemma mergeEntries_cached:
  "mergeEntries m (cachedEntries wc ds) d =
     (if d \<in> set ds then (case wc d of None \<Rightarrow> m d | Some ms \<Rightarrow> Some ms) else m d)"
  unfolding mergeEntries_def cachedEntries_def
  by (induction ds arbitrary: m) (auto split: option.splits)

lemma hasData_cached:
  "d \<in> set dates \<Longrightarrow>
     hasData (cachedEntries wc dates) d = (case wc d of Some (m # ms) \<Rightarrow> True | _ \<Rightarrow> False)"
  by (simp add: hasData_def mergeEntries_cached split: option.splits)

lemma hasData_nothing [simp]: "\<not> hasData [] d"
  by (simp add: hasData_def mergeEntries_def)

lemma mealsAfter_issued:
  "mealsAfter m (map Issued ds @ events) = mealsAfter m events"
  by (induction ds) simp_all

lemma mealsAfter_published_each:
  "mealsAfter m (map (\<lambda>date. Published (fetchedEntries tries [date])) ds @ events) =
     mealsAfter (mergeEntries m (fetchedEntries tries ds)) events"
proof (induction ds arbitrary: m)
  case Nil
  show ?case by (simp add: fetchedEntries_def mergeEntries_def)
next
  case (Cons d ds)
  have "fetchedEntries tries (d # ds) = fetchedEntries tries [d] @ fetchedEntries tries ds"
    by (simp add: fetchedEntries_def)
  then show ?case
    using Cons.IH [of "mergeEntries m (fetchedEntries tries [d])"]
    by (simp add: mergeEntries_append)
qed

text \<open>The two shapes of a load.\<close>

lemma fetchMealsForWeek_fresh:
  assumes "isRefresh \<or> (\<forall>d \<in> set dates. wc d = None \<or> wc d = Some [])"
  shows "fetchMealsForWeek (Some u) isRefresh dates wc tries =
           map Issued dates @
             [Joined,
              Published ((if isRefresh then [] else cachedEntries wc dates) @
                         fetchedEntries tries dates)]"
proof -
  have "filter (hasData (if isRefresh then [] else cachedEntries wc dates)) dates = []"
    using assms by (auto simp: filter_empty_conv hasData_cached)
  then show ?thesis
    by (simp add: fetchMealsForWeek_def Let_def)
qed

lemma fetchMealsForWeek_cached:
  assumes "\<not> isRefresh" and "d' \<in> set dates" and "wc d' = Some (m # ms)"
  shows "fetchMealsForWeek (Some u) isRefresh dates wc tries =
           Published (cachedEntries wc dates) #
             (if filter (\<lambda>d. \<not> hasData (cachedEntries wc dates) d) dates = [] then []
              else map Issued (filter (\<lambda>d. \<not> hasData (cachedEntries wc dates) d) dates) @
                   map (\<lambda>d. Published (fetchedEntries tries [d]))
                     (filter (\<lambda>d. \<not> hasData (cachedEntries wc dates) d) dates) @
                   [Joined])"
proof -
  have "hasData (cachedEntries wc dates) d'"
    using assms by (simp add: hasData_cached)
  then have "filter (hasData (cachedEntries wc dates)) dates \<noteq> []"
    using assms(2) by (auto simp: filter_empty_conv)
  then show ?thesis
    using assms(1) by (simp add: fetchMealsForWeek_def Let_def)
qed

lemma fetchMealsForWeek_entry:
  assumes "d \<in> set dates"
  shows "mealsAfter prev (fetchMealsForWeek (Some u) isRefresh dates wc tries) d =
           Some (case (if isRefresh then None else wc d) of
                   Some (m # ms) \<Rightarrow> m # ms
                 | _ \<Rightarrow> fetchMealsForDate (tries d) 0)"
proof (cases "isRefresh \<or> (\<forall>d \<in> set dates. wc d = None \<or> wc d = Some [])")
  case True
  then have "(case (if isRefresh then None else wc d) of
                Some (m # ms) \<Rightarrow> m # ms
              | _ \<Rightarrow> fetchMealsForDate (tries d) 0) = fetchMealsForDate (tries d) 0"
    using assms by (auto split: option.splits list.splits)
  then show ?thesis
    using assms
    by (simp add: fetchMealsForWeek_fresh [OF True] mealsAfter_issued mergeEntries_append
        mergeEntries_fetched)
next
  case False
  then obtain d' m ms where cached: "\<not> isRefresh" "d' \<in> set dates" "wc d' = Some (m # ms)"
    by (auto split: option.splits list.splits simp: neq_Nil_conv)
  let ?missing = "filter (\<lambda>d. \<not> hasData (cachedEntries wc dates) d) dates"
  have after: "mealsAfter prev (fetchMealsForWeek (Some u) isRefresh dates wc tries) =
      mergeEntries (mergeEntries prev (cachedEntries wc dates)) (fetchedEntries tries ?missing)"
  proof (cases "?missing = []")
    case True
    then show ?thesis
      unfolding fetchMealsForWeek_cached [of isRefresh d' dates wc m ms u tries, OF cached]
      by (simp add: fetchedEntries_def mergeEntries_def)
  next
    case False
    then show ?thesis
      unfolding fetchMealsForWeek_cached [of isRefresh d' dates wc m ms u tries, OF cached]
      by (simp add: mealsAfter_issued mealsAfter_published_each)
  qed
  show ?thesis
  proof (cases "hasData (cachedEntries wc dates) d")
    case True
    then obtain x xs where "wc d = Some (x # xs)"
      using assms by (auto simp: hasData_cached split: option.splits list.splits)
    then show ?thesis
      unfolding after using True assms cached(1)
      by (simp add: mergeEntries_fetched mergeEntries_cached)
  next
    case False
    then have "(case wc d of Some (m # ms) \<Rightarrow> m # ms | _ \<Rightarrow> fetchMealsForDate (tries d) 0) =
        fetchMealsForDate (tries d) 0"
      using assms by (auto simp: hasData_cached split: option.splits list.splits)
    then show ?thesis
      unfolding after using False assms cached(1)
      by (simp add: mergeEntries_fetched mergeEntries_cached hasData_cached
          split: option.splits list.splits)
  qed
qed

text \<open>The entry of a date is decided by what this date's own reads meet.\<close>

lemma fetchMealsForWeek_entry_independent:
  assumes "d \<in> set dates" and "wc d = wc' d" and "tries d = tries' d"
  shows "mealsAfter prev (fetchMealsForWeek (Some u) isRefresh dates wc tries) d =
         mealsAfter prev' (fetchMealsForWeek (Some u) isRefresh dates wc' tries') d"
  unfolding fetchMealsForWeek_entry [OF assms(1)] assms(2) assms(3) ..

text \<open>
  Claim C9, as the code has it, for a user who is logged in. A load that is a refresh,
  or that finds no cached records, issues the fetches of all requested days, joins them
  and then publishes the merged result in one update. A load that finds cached records
  publishes them first, then issues the fetches of the days without cached records only
  and publishes each of these days from its own fetch, before the join. Either way the
  \<open>meals\<close> state has in the end, under every requested date, the records that this
  date's own reads have delivered: the cached records where the week's cache read has
  some, the result of the date's fetch otherwise. And a fetch of a date always ends: with
  the records of the first attempt that delivers, be it the first attempt or a retry
  after one or two attempts that the code retries; with no records when the three
  attempts all fail that way, or when an attempt fails in a way the code does not retry.
  So whichever dates fail, they are published with no records and every other date with
  its own.
\<close>

theorem week_load_publishes_each_date:
  "(isRefresh \<or> (\<forall>d \<in> set dates. wc d = None \<or> wc d = Some []) \<longrightarrow>
      fetchMealsForWeek (Some u) isRefresh dates wc tries =
        map Issued dates @
          [Joined,
           Published ((if isRefresh then [] else cachedEntries wc dates) @
                      fetchedEntries tries dates)]) \<and>
   (\<not> isRefresh \<and> d' \<in> set dates \<and> wc d' = Some (m' # ms') \<longrightarrow>
      fetchMealsForWeek (Some u) isRefresh dates wc tries =
        Published (cachedEntries wc dates) #
          (if filter (\<lambda>d. \<not> hasData (cachedEntries wc dates) d) dates = [] then []
           else map Issued (filter (\<lambda>d. \<not> hasData (cachedEntries wc dates) d) dates) @
                map (\<lambda>d. Published (fetchedEntries tries [d]))
                  (filter (\<lambda>d. \<not> hasData (cachedEntries wc dates) d) dates) @
                [Joined])) \<and>
   (d \<in> set dates \<longrightarrow>
      mealsAfter prev (fetchMealsForWeek (Some u) isRefresh dates wc tries) d =
        Some (case (if isRefresh then None else wc d) of
                Some (m # ms) \<Rightarrow> m # ms
              | _ \<Rightarrow> fetchMealsForDate (tries d) 0)) \<and>
   (k \<le> 2 \<and> (\<forall>j < k. retried (a j)) \<and> delivered (a k) = Some records \<longrightarrow>
      fetchMealsForDate a 0 = records) \<and>
   (k \<le> 2 \<and> (\<forall>j < k. retried (a j)) \<and> \<not> retried (a k) \<and> delivered (a k) = None \<longrightarrow>
      fetchMealsForDate a 0 = []) \<and>
   ((\<forall>j < 3. retried (a j)) \<longrightarrow> fetchMealsForDate a 0 = [])"
proof (intro conjI impI)
  assume "isRefresh \<or> (\<forall>d \<in> set dates. wc d = None \<or> wc d = Some [])"
  then show "fetchMealsForWeek (Some u) isRefresh dates wc tries =
        map Issued dates @
          [Joined,
           Published ((if isRefresh then [] else cachedEntries wc dates) @
                      fetchedEntries tries dates)]"
    by (rule fetchMealsForWeek_fresh)
next
  assume "\<not> isRefresh \<and> d' \<in> set dates \<and> wc d' = Some (m' # ms')"
  then show "fetchMealsForWeek (Some u) isRefresh dates wc tries =
        Published (cachedEntries wc dates) #
          (if filter (\<lambda>d. \<not> hasData (cachedEntries wc dates) d) dates = [] then []
           else map Issued (filter (\<lambda>d. \<not> hasData (cachedEntries wc dates) d) dates) @
                map (\<lambda>d. Published (fetchedEntries tries [d]))
                  (filter (\<lambda>d. \<not> hasData (cachedEntries wc dates) d) dates) @
                [Joined])"
    using fetchMealsForWeek_cached [of isRefresh d' dates wc m' ms' u tries] by simp
next
  assume "d \<in> set dates"
  then show "mealsAfter prev (fetchMealsForWeek (Some u) isRefresh dates wc tries) d =
        Some (case (if isRefresh then None else wc d) of
                Some (m # ms) \<Rightarrow> m # ms
              | _ \<Rightarrow> fetchMealsForDate (tries d) 0)"
    by (rule fetchMealsForWeek_entry)
next
  assume "k \<le> 2 \<and> (\<forall>j < k. retried (a j)) \<and> delivered (a k) = Some records"
  then show "fetchMealsForDate a 0 = records"
    using fetchMealsForDate_skip [of k a] fetchMealsForDate_delivered [of a k records] by simp
next
  assume "k \<le> 2 \<and> (\<forall>j < k. retried (a j)) \<and> \<not> retried (a k) \<and> delivered (a k) = None"
  then show "fetchMealsForDate a 0 = []"
    using fetchMealsForDate_skip [of k a] fetchMealsForDate_given_up [of a k] by simp
next
  assume "\<forall>j < 3. retried (a j)"
  then show "fetchMealsForDate a 0 = []"
    by (rule fetchMealsForDate_exhausted)
qed

text \<open>
  A refresh of three days: the first delivers at once, the second fails three times, the
  third delivers in its third attempt. The three fetches are issued and joined, and one
  update publishes the first day with its record, the second with none and the third
  with its record.
\<close>

theorem week_load_publishes_each_date_witness:
  "fetchMealsForWeek (Some ''u1'') True weekDates (\<lambda>date. None) weekAttempts =
     [Issued ''2025-01-05'', Issued ''2025-01-06'', Issued ''2025-01-07'', Joined,
      Published [(''2025-01-05'', [lunch]), (''2025-01-06'', []), (''2025-01-07'', [snack])]] \<and>
   mealsAfter Map.empty
       (fetchMealsForWeek (Some ''u1'') True weekDates (\<lambda>date. None) weekAttempts)
       ''2025-01-05'' = Some [lunch] \<and>
   mealsAfter Map.empty
       (fetchMealsForWeek (Some ''u1'') True weekDates (\<lambda>date. None) weekAttempts)
       ''2025-01-06'' = Some [] \<and>
   mealsAfter Map.empty
       (fetchMealsForWeek (Some ''u1'') True weekDates (\<lambda>date. None) weekAttempts)
       ''2025-01-07'' = Some [snack]"
proof -
  have first: "delivered (weekAttempts ''2025-01-05'' 0) = Some [lunch]"
    by (simp add: weekAttempts_def successfulAttempt_def delivered_def)
  have second: "\<forall>j < 3. retried (weekAttempts ''2025-01-06'' j)"
    by (simp add: weekAttempts_def failingAttempt_def retried_def)
  have third: "(\<forall>j < 2. retried (weekAttempts ''2025-01-07'' j)) \<and>
      delivered (weekAttempts ''2025-01-07'' 2) = Some [snack]"
    by (simp add: weekAttempts_def failingAttempt_def successfulAttempt_def retried_def
        delivered_def)
  note day1 = week_load_publishes_each_date [where isRefresh = True and dates = weekDates
      and u = "''u1''" and wc = "\<lambda>date. None" and tries = weekAttempts
      and d = "''2025-01-05''" and prev = Map.empty
      and k = 0 and a = "weekAttempts ''2025-01-05''" and records = "[lunch]"]
  note day2 = week_load_publishes_each_date [where isRefresh = True and dates = weekDates
      and u = "''u1''" and wc = "\<lambda>date. None" and tries = weekAttempts
      and d = "''2025-01-06''" and prev = Map.empty
      and k = 0 and a = "weekAttempts ''2025-01-06''" and records = "[]"]
  note day3 = week_load_publishes_each_date [where isRefresh = True and dates = weekDates
      and u = "''u1''" and wc = "\<lambda>date. None" and tries = weekAttempts
      and d = "''2025-01-07''" and prev = Map.empty
      and k = 2 and a = "weekAttempts ''2025-01-07''" and records = "[snack]"]
  have f1: "fetchMealsForDate (weekAttempts ''2025-01-05'') 0 = [lunch]"
    using first day1 [THEN conjunct2, THEN conjunct2, THEN conjunct2, THEN conjunct1] by simp
  have f2: "fetchMealsForDate (weekAttempts ''2025-01-06'') 0 = []"
    using second
      day2 [THEN conjunct2, THEN conjunct2, THEN conjunct2, THEN conjunct2, THEN conjunct2]
    by simp
  have f3: "fetchMealsForDate (weekAttempts ''2025-01-07'') 0 = [snack]"
    using third day3 [THEN conjunct2, THEN conjunct2, THEN conjunct2, THEN conjunct1] by simp
  have shape: "fetchMealsForWeek (Some ''u1'') True weekDates (\<lambda>date. None) weekAttempts =
     [Issued ''2025-01-05'', Issued ''2025-01-06'', Issued ''2025-01-07'', Joined,
      Published [(''2025-01-05'', [lunch]), (''2025-01-06'', []), (''2025-01-07'', [snack])]]"
    using day1 [THEN conjunct1] f1 f2 f3 by (simp add: weekDates_def fetchedEntries_def)
  have e1: "mealsAfter Map.empty
       (fetchMealsForWeek (Some ''u1'') True weekDates (\<lambda>date. None) weekAttempts)
       ''2025-01-05'' = Some [lunch]"
    using day1 [THEN conjunct2, THEN conjunct2, THEN conjunct1] f1 by (simp add: weekDates_def)
  have e2: "mealsAfter Map.empty
       (fetchMealsForWeek (Some ''u1'') True weekDates (\<lambda>date. None) weekAttempts)
       ''2025-01-06'' = Some []"
    using day2 [THEN conjunct2, THEN conjunct2, THEN conjunct1] f2 by (simp add: weekDates_def)
  have e3: "mealsAfter Map.empty
       (fetchMealsForWeek (Some ''u1'') True weekDates (\<lambda>date. None) weekAttempts)
       ''2025-01-07'' = Some [snack]"
    using day3 [THEN conjunct2, THEN conjunct2, THEN conjunct1] f3 by (simp add: weekDates_def)
  show ?thesis
    using shape e1 e2 e3 by blast
qed

text \<open>
  The claim as stated fails on a load that is not a refresh and finds the first of the
  three days in the cache: the first day is published before any fetch is issued and is
  never fetched, and the two other days are published before the join.
\<close>

theorem week_load_publishes_each_date_counterexample:
  "fetchMealsForWeek (Some ''u1'') False weekDates firstDayCached weekAttempts =
     [Published [(''2025-01-05'', [lunch])],
      Issued ''2025-01-06'', Issued ''2025-01-07'',
      Published [(''2025-01-06'', [])], Published [(''2025-01-07'', [snack])],
      Joined] \<and>
   \<not> joinedBeforePublished
       (fetchMealsForWeek (Some ''u1'') False weekDates firstDayCached weekAttempts) \<and>
   Issued ''2025-01-05'' \<notin>
     set (fetchMealsForWeek (Some ''u1'') False weekDates firstDayCached weekAttempts)"
proof -
  have f2: "fetchMealsForDate (weekAttempts ''2025-01-06'') 0 = []"
    by (rule fetchMealsForDate_exhausted)
      (simp add: weekAttempts_def failingAttempt_def retried_def)
  have "fetchMealsForDate (weekAttempts ''2025-01-07'') 0 =
      fetchMealsForDate (weekAttempts ''2025-01-07'') 2"
    by (rule fetchMealsForDate_skip)
      (simp_all add: weekAttempts_def failingAttempt_def retried_def)
  then have f3: "fetchMealsForDate (weekAttempts ''2025-01-07'') 0 = [snack]"
    by (simp add: fetchMealsForDate_delivered weekAttempts_def successfulAttempt_def
        delivered_def)
  have trace: "fetchMealsForWeek (Some ''u1'') False weekDates firstDayCached weekAttempts =
     [Published [(''2025-01-05'', [lunch])],
      Issued ''2025-01-06'', Issued ''2025-01-07'',
      Published [(''2025-01-06'', [])], Published [(''2025-01-07'', [snack])],
      Joined]"
    using f2 f3
    by (simp add: fetchMealsForWeek_def weekDates_def firstDayCached_def cachedEntries_def
        fetchedEntries_def hasData_def mergeEntries_def Let_def)
  show ?thesis
    unfolding trace by simp
qed

subsection \<open>Nutrition totals\<close>



text \<open>
  Two records of a day, with fields missing in each and one field that is \<open>NaN\<close>,
  under any addition.
\<close>

lemma calculateNutritionTotals_example:
  "calculateNutritionTotals add [lunch, snack] =
     \<lparr>calories_total = add (add (Fin 0) (Fin 500)) (Fin 150),
      protein_total = add (add (Fin 0) (Fin 30)) (Fin 0),
      carbs = add (add (Fin 0) (Fin 0)) (Fin 20),
      fat_total = add (add (Fin 0) (Fin 10)) (Fin 0)\<rparr>"
  by (simp add: calculateNutritionTotals_def lunch_def snack_def orZero_def isNaN_def)

end
